theory Spec2Isabelle
  imports Main "HOL-Library.Sublist"
begin

section \<open>Python values used by \<open>app.py\<close>\<close>

text \<open>
  A Python \<open>str\<close> is a sequence of Unicode code points, so it is modelled as a list of
  code points (natural numbers); \<open>length\<close> and slicing then count what Python counts.
  \<open>ascii\<close> turns a literal of the theory into such a string.
\<close>

type_synonym py_str = "nat list"

definition ascii :: "string \<Rightarrow> py_str" where
  "ascii s = map of_char s"

text \<open>
  The code points that \<open>str.strip()\<close> without argument removes (the ones for which
  \<open>str.isspace\<close> holds): TAB..CR, FS..US and SPACE, NEL, NBSP, U+1680, U+2000..U+200A,
  U+2028, U+2029, U+202F, U+205F and U+3000.
\<close>

definition py_isspace :: "nat \<Rightarrow> bool" where
  "py_isspace c \<longleftrightarrow>
     (9 \<le> c \<and> c \<le> 13) \<or> (28 \<le> c \<and> c \<le> 32) \<or> c = 133 \<or> c = 160 \<or> c = 5760 \<or>
     (8192 \<le> c \<and> c \<le> 8202) \<or> c = 8232 \<or> c = 8233 \<or> c = 8239 \<or> c = 8287 \<or> c = 12288"

text \<open>\<open>s.strip()\<close>: leading and trailing whitespace removed.\<close>

definition strip :: "py_str \<Rightarrow> py_str" where
  "strip s = rev (dropWhile py_isspace (rev (dropWhile py_isspace s)))"

text \<open>\<open>s.endswith(suf)\<close>.\<close>

definition endswith :: "py_str \<Rightarrow> py_str \<Rightarrow> bool" where
  "endswith s suf \<longleftrightarrow> length suf \<le> length s \<and> drop (length s - length suf) s = suf"

text \<open>\<open>sep.join(xs)\<close>.\<close>

fun join :: "py_str \<Rightarrow> py_str list \<Rightarrow> py_str" where
  "join sep [] = []"
| "join sep [x] = x"
| "join sep (x # y # ys) = x @ sep @ join sep (y # ys)"

text \<open>
  What \<open>r.json()\<close> returns: \<open>None\<close>, a bool, an int, a float, a str, a list or a dict.
  The items of a dict are kept in insertion order; its keys are strings and distinct.
  Floats stay abstract (type \<open>'f\<close>): the two operations the code needs from them, the
  truth value and the text \<open>json.dumps\<close> writes, are taken as parameters.
\<close>

datatype 'f json =
    JNull
  | JBool bool
  | JInt int
  | JFloat 'f
  | JStr py_str
  | JArr "'f json list"
  | JObj "(py_str \<times> 'f json) list"

record 'f float_ops =
  is_zero :: "'f \<Rightarrow> bool"
  float_repr :: "'f \<Rightarrow> py_str"

text \<open>The truth value of a Python object, as \<open>or\<close> and \<open>not\<close> use it.\<close>

fun truthy :: "'f float_ops \<Rightarrow> 'f json \<Rightarrow> bool" where
  "truthy fl JNull = False"
| "truthy fl (JBool b) = b"
| "truthy fl (JInt i) = (i \<noteq> 0)"
| "truthy fl (JFloat x) = (\<not> is_zero fl x)"
| "truthy fl (JStr s) = (s \<noteq> [])"
| "truthy fl (JArr xs) = (xs \<noteq> [])"
| "truthy fl (JObj kvs) = (kvs \<noteq> [])"

text \<open>\<open>a or b\<close>.\<close>

definition py_or :: "'f float_ops \<Rightarrow> 'f json \<Rightarrow> 'f json \<Rightarrow> 'f json" where
  "py_or fl a b = (if truthy fl a then a else b)"

text \<open>
  What \<open>client.post\<close> may raise: one of the four subclasses of
  \<open>httpx.TimeoutException\<close>, one for each phase of the call that has a timeout, or another
  \<open>httpx.RequestError\<close>.
\<close>

datatype httpx_exception =
  ConnectTimeout | ReadTimeout | WriteTimeout | PoolTimeout | OtherRequestError


datatype exn =
  AttributeError | KeyError | IndexError | TypeError | JSONDecodeError
  | HttpxError httpx_exception

text \<open>Sequencing of steps that may raise: the first exception ends the chain.\<close>

definition and_then :: "exn + 'a \<Rightarrow> ('a \<Rightarrow> exn + 'b) \<Rightarrow> exn + 'b" where
  "and_then r f = (case r of Inl e \<Rightarrow> Inl e | Inr v \<Rightarrow> f v)"

text \<open>\<open>x.get(k)\<close>: only a dict has the method; a missing key gives \<open>None\<close>.\<close>

fun dict_get :: "'f json \<Rightarrow> py_str \<Rightarrow> exn + 'f json" where
  "dict_get (JObj kvs) k = Inr (case map_of kvs k of None \<Rightarrow> JNull | Some v \<Rightarrow> v)"
| "dict_get _ k = Inl AttributeError"

text \<open>\<open>x[k]\<close> with a string \<open>k\<close>: a missing key raises, and so does every non-dict.\<close>

fun getitem_key :: "'f json \<Rightarrow> py_str \<Rightarrow> exn + 'f json" where
  "getitem_key (JObj kvs) k = (case map_of kvs k of None \<Rightarrow> Inl KeyError | Some v \<Rightarrow> Inr v)"
| "getitem_key _ k = Inl TypeError"

text \<open>
  \<open>x[i]\<close> with an integer \<open>i\<close>: a list or a str is indexed (from the end when \<open>i\<close> is
  negative), a dict has no integer key, anything else is not subscriptable.
\<close>

definition seq_index :: "'a list \<Rightarrow> int \<Rightarrow> exn + 'a" where
  "seq_index xs i =
     (if 0 \<le> i \<and> i < int (length xs) then Inr (xs ! nat i)
      else if i < 0 \<and> - int (length xs) \<le> i then Inr (xs ! nat (int (length xs) + i))
      else Inl IndexError)"

fun getitem_idx :: "'f json \<Rightarrow> int \<Rightarrow> exn + 'f json" where
  "getitem_idx (JArr xs) i = seq_index xs i"
| "getitem_idx (JStr s) i = and_then (seq_index s i) (\<lambda>c. Inr (JStr [c]))"
| "getitem_idx (JObj kvs) i = Inl KeyError"
| "getitem_idx _ i = Inl TypeError"

text \<open>\<open>x.strip()\<close> on a parsed value: only a str has the method.\<close>

fun str_strip :: "'f json \<Rightarrow> exn + py_str" where
  "str_strip (JStr s) = Inr (strip s)"
| "str_strip _ = Inl AttributeError"

subsection \<open>\<open>json.dumps\<close> with its default arguments\<close>

fun str_nat :: "nat \<Rightarrow> py_str" where
  "str_nat n = (if n < 10 then [48 + n] else str_nat (n div 10) @ [48 + n mod 10])"

declare str_nat.simps [simp del]

definition str_int :: "int \<Rightarrow> py_str" where
  "str_int i = (if i < 0 then 45 # str_nat (nat (- i)) else str_nat (nat i))"

definition hex_digit :: "nat \<Rightarrow> nat" where
  "hex_digit d = (if d < 10 then 48 + d else 87 + d)"

definition hex4 :: "nat \<Rightarrow> py_str" where
  "hex4 n = [hex_digit (n div 4096 mod 16), hex_digit (n div 256 mod 16),
             hex_digit (n div 16 mod 16), hex_digit (n mod 16)]"

text \<open>
  One character of a string under \<open>ensure_ascii=True\<close>: the short escapes, printable
  ASCII as it is, everything else as \<open>\uXXXX\<close> (a surrogate pair above U+FFFF).
\<close>

definition escape_char :: "nat \<Rightarrow> py_str" where
  "escape_char c =
     (if c = 34 then [92, 34]
      else if c = 92 then [92, 92]
      else if c = 10 then [92, 110]
      else if c = 13 then [92, 114]
      else if c = 9 then [92, 116]
      else if c = 8 then [92, 98]
      else if c = 12 then [92, 102]
      else if 32 \<le> c \<and> c \<le> 126 then [c]
      else if c < 65536 then [92, 117] @ hex4 c
      else [92, 117] @ hex4 (55296 + (c - 65536) div 1024 mod 1024) @
           [92, 117] @ hex4 (56320 + (c - 65536) mod 1024))"

definition encode_str :: "py_str \<Rightarrow> py_str" where
  "encode_str s = [34] @ concat (map escape_char s) @ [34]"

fun json_dumps :: "'f float_ops \<Rightarrow> 'f json \<Rightarrow> py_str" where
  "json_dumps fl JNull = ascii ''null''"
| "json_dumps fl (JBool b) = (if b then ascii ''true'' else ascii ''false'')"
| "json_dumps fl (JInt i) = str_int i"
| "json_dumps fl (JFloat x) = float_repr fl x"
| "json_dumps fl (JStr s) = encode_str s"
| "json_dumps fl (JArr xs) = ascii ''['' @ join (ascii '', '') (map (json_dumps fl) xs) @ ascii '']''"
| "json_dumps fl (JObj kvs) =
     ascii ''{'' @
     join (ascii '', '')
       (map (\<lambda>kv. encode_str (fst kv) @ ascii '': '' @ json_dumps fl (snd kv)) kvs) @
     ascii ''}''"

section \<open>The service\<close>

subsection \<open>Configuration and request models\<close>

text \<open>The process environment read at start-up, and the URL built from it.\<close>

record config =
  GEMINI_API_KEY :: py_str
  GEMINI_MODEL :: py_str

definition GEMINI_URL :: "config \<Rightarrow> py_str" where
  "GEMINI_URL cfg =
     ascii ''https://generativelanguage.googleapis.com/v1beta/models/'' @ GEMINI_MODEL cfg @
     ascii '':generateContent?key='' @ GEMINI_API_KEY cfg"

record SourceCodeUpload =
  source_code :: py_str
  file_name :: py_str
  package_name :: "py_str option"

record SourceCodeUploaded =
  status :: py_str
  message :: py_str
  file_name :: py_str
  package_name :: "py_str option"

record UTGenerationRequest =
  pattern_content :: py_str
  source_code :: py_str
  file_name :: py_str
  pattern_name :: py_str
  additional_context :: "py_str option"

record UTGenerationResponse =
  unit_tests :: py_str
  pattern_used :: py_str
  file_analyzed :: py_str

text \<open>
  How a handler ends without a response: it raises \<open>HTTPException\<close> (with a status code
  and a detail, which may be any value), or another exception leaves it uncaught.
\<close>

datatype 'f failure =
    HTTPException int "'f json"
  | Uncaught exn

subsection \<open>\<open>POST /upload-source\<close>\<close>

definition upload_source :: "SourceCodeUpload \<Rightarrow> 'f failure + SourceCodeUploaded" where
  "upload_source payload =
     (let source_code' = strip (SourceCodeUpload.source_code payload);
          file_name' = strip (SourceCodeUpload.file_name payload)
      in if source_code' = [] then
           Inl (HTTPException 400 (JStr (ascii ''Source code is required'')))
         else if file_name' = [] then
           Inl (HTTPException 400 (JStr (ascii ''File name is required'')))
         else if \<not> endswith file_name' (ascii ''.go'') then
           Inl (HTTPException 400 (JStr (ascii ''File must be a Go source file (.go)'')))
         else
           Inr \<lparr>status = ascii ''success'',
                message = ascii ''Source file '' @ [39] @ file_name' @ [39] @
                          ascii '' uploaded successfully'',
                SourceCodeUploaded.file_name = file_name',
                SourceCodeUploaded.package_name = SourceCodeUpload.package_name payload\<rparr>)"

subsection \<open>\<open>POST /generate-ut\<close>\<close>

text \<open>The f-string of the handler: every line of the template ends with a newline.\<close>

definition prompt_lines :: "py_str list \<Rightarrow> py_str" where
  "prompt_lines ls = concat (map (\<lambda>l. l @ [10]) ls)"

definition build_prompt ::
  "py_str \<Rightarrow> py_str \<Rightarrow> py_str \<Rightarrow> py_str \<Rightarrow> py_str option \<Rightarrow> py_str" where
  "build_prompt pattern_name' pattern_content' file_name' source_code' additional_context' =
     prompt_lines
      [[],
       ascii ''You are an expert Go developer tasked with generating unit tests based on a specific pattern.'',
       [],
       ascii ''PATTERN DEFINITION:'',
       ascii ''Pattern Name: '' @ pattern_name',
       ascii ''Pattern Content:'',
       pattern_content',
       [],
       ascii ''SOURCE CODE TO TEST:'',
       ascii ''File Name: '' @ file_name',
       source_code',
       [],
       ascii ''ADDITIONAL CONTEXT:'',
       (case additional_context' of
          None \<Rightarrow> ascii ''None provided''
        | Some c \<Rightarrow> if c \<noteq> [] then c else ascii ''None provided''),
       [],
       ascii ''INSTRUCTIONS:'',
       ascii ''1. Analyze the provided pattern to understand the testing methodology'',
       ascii ''2. Study the source code structure, functions, and interfaces'',
       ascii ''3. Generate comprehensive unit tests following the pattern's style and conventions'',
       ascii ''4. Include test cases for:'',
       ascii ''   - Happy path scenarios'',
       ascii ''   - Edge cases'',
       ascii ''   - Error conditions'',
       ascii ''   - Mock usage (if shown in pattern)'',
       ascii ''5. Ensure tests are idiomatic Go and follow the pattern's approach'',
       ascii ''6. Provide ONLY the generated test code, no explanations'',
       [],
       ascii ''Generate the unit tests:'']"

text \<open>
  \<open>httpx.Timeout(60.0, read=60.0)\<close>: a timeout in seconds for each of the four phases of a
  call (the attributes \<open>connect\<close>, \<open>read\<close>, \<open>write\<close> and \<open>pool\<close>). The first argument
  is the value of every phase that no keyword sets; \<open>read\<close> is the one keyword the handler
  passes. The float \<open>60.0\<close> is written as the number 60.
\<close>

record httpx_timeout =
  connect_timeout :: nat
  read_timeout :: nat
  write_timeout :: nat
  pool_timeout :: nat

definition Timeout :: "nat \<Rightarrow> nat option \<Rightarrow> httpx_timeout" where
  "Timeout dflt read' =
     \<lparr>connect_timeout = dflt,
      read_timeout = (case read' of None \<Rightarrow> dflt | Some r \<Rightarrow> r),
      write_timeout = dflt, pool_timeout = dflt\<rparr>"

text \<open>
  The outbound call \<open>client.post(GEMINI_URL, json=body, headers=...)\<close>, on a client
  made with \<open>httpx.AsyncClient(timeout=timeout)\<close>.
\<close>

record 'f post_call =
  url :: py_str
  json_body :: "'f json"
  headers :: "(py_str \<times> py_str) list"
  timeout :: httpx_timeout

definition request_body :: "py_str \<Rightarrow> 'f json" where
  "request_body prompt =
     JObj [(ascii ''contents'',
            JArr [JObj [(ascii ''parts'', JArr [JObj [(ascii ''text'', JStr prompt)]])]])]"

text \<open>
  What the call gives back: httpx raises (a timeout or another transport error), or a
  response arrives with its status code and what \<open>r.json()\<close> makes of its body
  (\<open>None\<close> when the body is not JSON, where \<open>r.json()\<close> raises).
\<close>

datatype 'f post_outcome =
    PostRaised httpx_exception
  | Response int "'f json option"

text \<open>\<open>(data.get("error") or {}).get("message") or "Upstream error"\<close>\<close>

definition upstream_message :: "'f float_ops \<Rightarrow> 'f json \<Rightarrow> exn + 'f json" where
  "upstream_message fl data =
     and_then (dict_get data (ascii ''error'')) (\<lambda>err.
     and_then (dict_get (py_or fl err (JObj [])) (ascii ''message'')) (\<lambda>m.
     Inr (py_or fl m (JStr (ascii ''Upstream error'')))))"

text \<open>\<open>data["candidates"][0]["content"]["parts"][0]["text"].strip()\<close>\<close>

definition extract_unit_tests :: "'f json \<Rightarrow> exn + py_str" where
  "extract_unit_tests data =
     and_then (getitem_key data (ascii ''candidates'')) (\<lambda>candidates.
     and_then (getitem_idx candidates 0) (\<lambda>candidate.
     and_then (getitem_key candidate (ascii ''content'')) (\<lambda>content.
     and_then (getitem_key content (ascii ''parts'')) (\<lambda>parts.
     and_then (getitem_idx parts 0) (\<lambda>part.
     and_then (getitem_key part (ascii ''text'')) str_strip)))))"

text \<open>
  The handler. \<open>client_post\<close> is the remote side; the second component of the result
  lists the outbound calls that were made, in order.
\<close>

definition generate_unit_tests ::
  "'f float_ops \<Rightarrow> config \<Rightarrow> ('f post_call \<Rightarrow> 'f post_outcome) \<Rightarrow> UTGenerationRequest \<Rightarrow>
     ('f failure + UTGenerationResponse) \<times> 'f post_call list" where
  "generate_unit_tests fl cfg client_post payload =
     (let pattern_content' = strip (pattern_content payload);
          source_code' = strip (UTGenerationRequest.source_code payload);
          file_name' = strip (UTGenerationRequest.file_name payload);
          pattern_name' = strip (pattern_name payload)
      in if \<not> list_all (\<lambda>s. s \<noteq> []) [pattern_content', source_code', file_name', pattern_name'] then
           (Inl (HTTPException 400 (JStr (ascii
              ''All fields (pattern_content, source_code, file_name, pattern_name) are required''))),
            [])
         else
           let prompt = build_prompt pattern_name' pattern_content' file_name' source_code'
                          (additional_context payload);
               timeout' = Timeout 60 (Some 60);
               call = \<lparr>url = GEMINI_URL cfg, json_body = request_body prompt,
                       headers = [(ascii ''Content-Type'', ascii ''application/json'')],
                       timeout = timeout'\<rparr>
           in ((case client_post call of
                  PostRaised e \<Rightarrow> Inl (Uncaught (HttpxError e))
                | Response status_code body \<Rightarrow>
                    (case body of
                       None \<Rightarrow> Inl (Uncaught JSONDecodeError)
                     | Some data \<Rightarrow>
                         if status_code \<noteq> 200 then
                           (case upstream_message fl data of
                              Inl e \<Rightarrow> Inl (Uncaught e)
                            | Inr msg \<Rightarrow> Inl (HTTPException status_code msg))
                         else
                           (case extract_unit_tests data of
                              Inl e \<Rightarrow>
                                Inl (HTTPException 502 (JStr (ascii ''Unexpected API response: '' @
                                       take 800 (json_dumps fl data))))
                            | Inr unit_tests' \<Rightarrow>
                                Inr \<lparr>unit_tests = unit_tests', pattern_used = pattern_name',
                                     file_analyzed = file_name'\<rparr>))),
               [call]))"

text \<open>
  The local variables of both handlers carry a prime here, since their names are also
  the names of the request fields.
\<close>

section \<open>The payload shape in the words of the specification\<close>

text \<open>
  The specification names the text the service consumes as the text of the first content
  part of the first candidate, for a payload of the shape
  \<open>{candidates: [{content: {parts: [{text: ...}]}}]}\<close>. The next three definitions
  say that directly on the JSON value, with no reference to the handler: a member of an
  object, the first item of a non-empty array, and the path made of them.
\<close>

fun obj_member :: "'f json \<Rightarrow> py_str \<Rightarrow> 'f json option" where
  "obj_member (JObj kvs) k = map_of kvs k"
| "obj_member _ k = None"

fun first_item :: "'f json \<Rightarrow> 'f json option" where
  "first_item (JArr (x # xs)) = Some x"
| "first_item _ = None"

definition spec_nested_text :: "'f json \<Rightarrow> 'f json option" where
  "spec_nested_text data =
     Option.bind (obj_member data (ascii ''candidates'')) (\<lambda>candidates.
     Option.bind (first_item candidates) (\<lambda>candidate.
     Option.bind (obj_member candidate (ascii ''content'')) (\<lambda>content.
     Option.bind (obj_member content (ascii ''parts'')) (\<lambda>parts.
     Option.bind (first_item parts) (\<lambda>part.
     obj_member part (ascii ''text''))))))"

text \<open>
  The upstream error shape the specification names: the message member of the error
  member of the body.
\<close>

definition spec_error_message :: "'f json \<Rightarrow> 'f json option" where
  "spec_error_message data =
     Option.bind (obj_member data (ascii ''error'')) (\<lambda>err. obj_member err (ascii ''message''))"

section \<open>Concrete surroundings for evaluating the handlers\<close>

text \<open>
  A remote side that gives the same outcome to every call, and a float type with a single
  value, which is not zero and is written \<open>1.5\<close>.
\<close>

definition always :: "'f post_outcome \<Rightarrow> 'f post_call \<Rightarrow> 'f post_outcome" where
  "always out call = out"

definition unit_floats :: "unit float_ops" where
  "unit_floats = \<lparr>is_zero = (\<lambda>_. False), float_repr = (\<lambda>_. ascii ''1.5'')\<rparr>"

text \<open>
  The scenario of the specification: its request, the payload its collaborator returns,
  and a configuration to run it under.
\<close>

definition scenario_config :: config where
  "scenario_config = \<lparr>GEMINI_API_KEY = ascii ''key'', GEMINI_MODEL = ascii ''gemini-2.5-flash''\<rparr>"

definition scenario_request :: UTGenerationRequest where
  "scenario_request =
     \<lparr>pattern_content = ascii ''P'', source_code = ascii ''S'', file_name = ascii ''a.go'',
      pattern_name = ascii ''N'', additional_context = None\<rparr>"

definition scenario_payload :: "unit json" where
  "scenario_payload =
     JObj [(ascii ''candidates'',
            JArr [JObj [(ascii ''content'',
                         JObj [(ascii ''parts'',
                                JArr [JObj [(ascii ''text'', JStr (ascii ''  test code  ''))]])])]])]"

section \<open>Facts about the Python operations\<close>

lemma strip_eq_Nil_iff: "strip s = [] \<longleftrightarrow> (\<forall>c\<in>set s. py_isspace c)"
proof
  assume "strip s = []"
  then have all: "\<forall>c\<in>set (dropWhile py_isspace s). py_isspace c"
    by (simp add: strip_def)
  have "dropWhile py_isspace s = []"
  proof (rule ccontr)
    assume ne: "dropWhile py_isspace s \<noteq> []"
    then have "\<not> py_isspace (hd (dropWhile py_isspace s))" by (rule hd_dropWhile)
    with all ne show False by (meson hd_in_set)
  qed
  then show "\<forall>c\<in>set s. py_isspace c" by simp
next
  assume "\<forall>c\<in>set s. py_isspace c"
  then show "strip s = []" by (auto simp: strip_def dest: set_dropWhileD)
qed



lemma dropWhile_id: "xs = [] \<or> \<not> P (hd xs) \<Longrightarrow> dropWhile P xs = xs"
  by (cases xs) auto


lemma endswith_iff_suffix: "endswith s t \<longleftrightarrow> suffix t s"
  unfolding endswith_def
  by (metis append_eq_conv_conj diff_add_inverse2 length_append suffixE suffix_length_le
    suffix_drop)

lemma sublist_prompt_line: "l \<in> set ls \<Longrightarrow> sublist l (prompt_lines ls)"
proof -
  assume "l \<in> set ls"
  then obtain as bs where "ls = as @ l # bs" by (auto dest: split_list)
  then have "prompt_lines ls = prompt_lines as @ l @ ([10] @ prompt_lines bs)"
    by (simp add: prompt_lines_def)
  then show ?thesis unfolding sublist_def by blast
qed

lemma getitem_key_member:
  "obj_member x k = Some v \<Longrightarrow> getitem_key x k = Inr v"
  "obj_member x k = None \<Longrightarrow> \<exists>e. getitem_key x k = Inl e"
  by (cases x; simp split: option.splits)+

lemma getitem_idx_first:
  "first_item x = Some v \<Longrightarrow> getitem_idx x 0 = Inr v"
  by (cases x rule: first_item.cases) (simp_all add: seq_index_def)


lemma and_then_Inr [simp]: "and_then (Inr v) f = f v"
  by (simp add: and_then_def)

lemma and_then_Inl [simp]: "and_then (Inl e) f = Inl e"
  by (simp add: and_then_def)

lemma extract_located:
  assumes "spec_nested_text data = Some v"
  shows "extract_unit_tests data = str_strip v"
  using assms unfolding spec_nested_text_def extract_unit_tests_def
  by (auto simp: getitem_idx_first getitem_key_member(1) split: Option.bind_splits)



lemma blank_iff_strip_Nil: "list_all py_isspace s \<longleftrightarrow> strip s = []"
  by (simp add: strip_eq_Nil_iff list_all_iff)

lemma strip_surrounded:
  assumes "list_all py_isspace ws1" and "list_all py_isspace ws2"
    and "t \<noteq> []" and "\<not> py_isspace (hd t)" and "\<not> py_isspace (last t)"
  shows "strip (ws1 @ t @ ws2) = t"
proof -
  have "dropWhile py_isspace (ws1 @ t @ ws2) = dropWhile py_isspace (t @ ws2)"
    using assms(1) by (intro dropWhile_append2) (simp add: list_all_iff)
  also have "\<dots> = t @ ws2"
    using assms(3,4) by (intro dropWhile_id) simp
  finally have front: "dropWhile py_isspace (ws1 @ t @ ws2) = t @ ws2" .
  have "dropWhile py_isspace (rev ws2 @ rev t) = dropWhile py_isspace (rev t)"
    using assms(2) by (intro dropWhile_append2) (simp add: list_all_iff)
  also have "\<dots> = rev t"
    using assms(3,5) by (intro dropWhile_id) (simp add: hd_rev)
  finally show ?thesis by (simp add: strip_def front)
qed

section \<open>Facts about the handler of \<open>/generate-ut\<close>\<close>

text \<open>
  A request whose four required fields survive trimming makes exactly one call; any other
  request makes none. Once the call is answered with a status and a JSON body, the result
  depends on the answer alone.
\<close>

lemma generate_ut_call:
  assumes "strip (pattern_content p) \<noteq> []" "strip (UTGenerationRequest.source_code p) \<noteq> []"
    "strip (UTGenerationRequest.file_name p) \<noteq> []" "strip (pattern_name p) \<noteq> []"
  shows "snd (generate_unit_tests fl cfg client_post p) =
    [\<lparr>url = GEMINI_URL cfg,
      json_body = request_body (build_prompt (strip (pattern_name p)) (strip (pattern_content p))
         (strip (UTGenerationRequest.file_name p)) (strip (UTGenerationRequest.source_code p))
         (additional_context p)),
      headers = [(ascii ''Content-Type'', ascii ''application/json'')],
      timeout = Timeout 60 (Some 60)\<rparr>]"
  using assms by (simp add: generate_unit_tests_def Let_def)

lemma generate_ut_no_call:
  assumes "strip (pattern_content p) = [] \<or> strip (UTGenerationRequest.source_code p) = [] \<or>
    strip (UTGenerationRequest.file_name p) = [] \<or> strip (pattern_name p) = []"
  shows "snd (generate_unit_tests fl cfg client_post p) = []"
  using assms by (auto simp add: generate_unit_tests_def Let_def)

lemma generate_ut_answered:
  assumes "snd (generate_unit_tests fl cfg client_post p) = [call]"
    and "client_post call = Response status_code (Some data)"
  shows "fst (generate_unit_tests fl cfg client_post p) =
    (if status_code \<noteq> 200 then
       (case upstream_message fl data of
          Inl e \<Rightarrow> Inl (Uncaught e)
        | Inr msg \<Rightarrow> Inl (HTTPException status_code msg))
     else
       (case extract_unit_tests data of
          Inl e \<Rightarrow> Inl (HTTPException 502 (JStr (ascii ''Unexpected API response: '' @
                       take 800 (json_dumps fl data))))
        | Inr unit_tests' \<Rightarrow>
            Inr \<lparr>unit_tests = unit_tests', pattern_used = strip (pattern_name p),
                 file_analyzed = strip (UTGenerationRequest.file_name p)\<rparr>))"
proof (cases "strip (pattern_content p) \<noteq> [] \<and> strip (UTGenerationRequest.source_code p) \<noteq> [] \<and>
    strip (UTGenerationRequest.file_name p) \<noteq> [] \<and> strip (pattern_name p) \<noteq> []")
  case True
  then have c: "snd (generate_unit_tests fl cfg client_post p) =
    [\<lparr>url = GEMINI_URL cfg,
      json_body = request_body (build_prompt (strip (pattern_name p)) (strip (pattern_content p))
         (strip (UTGenerationRequest.file_name p)) (strip (UTGenerationRequest.source_code p))
         (additional_context p)),
      headers = [(ascii ''Content-Type'', ascii ''application/json'')],
      timeout = Timeout 60 (Some 60)\<rparr>]"
    by (intro generate_ut_call) simp_all
  with assms(1) have "call = \<lparr>url = GEMINI_URL cfg,
      json_body = request_body (build_prompt (strip (pattern_name p)) (strip (pattern_content p))
         (strip (UTGenerationRequest.file_name p)) (strip (UTGenerationRequest.source_code p))
         (additional_context p)),
      headers = [(ascii ''Content-Type'', ascii ''application/json'')],
      timeout = Timeout 60 (Some 60)\<rparr>" by simp
  with assms(2) True show ?thesis
    by (simp add: generate_unit_tests_def Let_def)
next
  case False
  then have "snd (generate_unit_tests fl cfg client_post p) = []"
    by (intro generate_ut_no_call) auto
  with assms(1) show ?thesis by simp
qed

lemma generate_ut_call_made:
  assumes "snd (generate_unit_tests fl cfg client_post p) = [call]"
  shows "strip (pattern_content p) \<noteq> [] \<and> strip (UTGenerationRequest.source_code p) \<noteq> [] \<and>
    strip (UTGenerationRequest.file_name p) \<noteq> [] \<and> strip (pattern_name p) \<noteq> [] \<and>
    call = \<lparr>url = GEMINI_URL cfg,
      json_body = request_body (build_prompt (strip (pattern_name p)) (strip (pattern_content p))
         (strip (UTGenerationRequest.file_name p)) (strip (UTGenerationRequest.source_code p))
         (additional_context p)),
      headers = [(ascii ''Content-Type'', ascii ''application/json'')],
      timeout = Timeout 60 (Some 60)\<rparr>"
proof (cases "strip (pattern_content p) \<noteq> [] \<and> strip (UTGenerationRequest.source_code p) \<noteq> [] \<and>
    strip (UTGenerationRequest.file_name p) \<noteq> [] \<and> strip (pattern_name p) \<noteq> []")
  case True
  then have "snd (generate_unit_tests fl cfg client_post p) =
    [\<lparr>url = GEMINI_URL cfg,
      json_body = request_body (build_prompt (strip (pattern_name p)) (strip (pattern_content p))
         (strip (UTGenerationRequest.file_name p)) (strip (UTGenerationRequest.source_code p))
         (additional_context p)),
      headers = [(ascii ''Content-Type'', ascii ''application/json'')],
      timeout = Timeout 60 (Some 60)\<rparr>]"
    by (intro generate_ut_call) simp_all
  with assms True show ?thesis by simp
next
  case False
  then have "snd (generate_unit_tests fl cfg client_post p) = []"
    by (intro generate_ut_no_call) auto
  with assms show ?thesis by simp
qed


lemma generate_ut_unparsed:
  assumes "snd (generate_unit_tests fl cfg client_post p) = [call]"
    and "client_post call = Response status_code None"
  shows "fst (generate_unit_tests fl cfg client_post p) = Inl (Uncaught JSONDecodeError)"
  using generate_ut_call_made [OF assms(1)] assms(2)
  by (simp add: generate_unit_tests_def Let_def)

lemma scenario_valid:
  "strip (pattern_content scenario_request) = ascii ''P''"
  "strip (UTGenerationRequest.source_code scenario_request) = ascii ''S''"
  "strip (UTGenerationRequest.file_name scenario_request) = ascii ''a.go''"
  "strip (pattern_name scenario_request) = ascii ''N''"
  by (simp_all add: scenario_request_def strip_def ascii_def py_isspace_def)

lemma ascii_ne [simp]: "ascii (c # cs) \<noteq> []"
  by (simp add: ascii_def)

lemma generate_ut_one_call:
  assumes "strip (pattern_content p) \<noteq> []" "strip (UTGenerationRequest.source_code p) \<noteq> []"
    "strip (UTGenerationRequest.file_name p) \<noteq> []" "strip (pattern_name p) \<noteq> []"
  shows "\<exists>call. snd (generate_unit_tests fl cfg client_post p) = [call]"
  by (simp add: generate_ut_call [OF assms])

lemma scenario_one_call:
  "\<exists>call. snd (generate_unit_tests fl cfg client_post scenario_request) = [call]"
  by (rule generate_ut_one_call) (simp_all add: scenario_valid)

text \<open>The message of an upstream failure, for a body that is a JSON object.\<close>

lemma upstream_message_obj:
  "upstream_message fl (JObj kvs) =
     and_then (dict_get (py_or fl (case map_of kvs (ascii ''error'') of None \<Rightarrow> JNull | Some v \<Rightarrow> v)
                 (JObj [])) (ascii ''message''))
       (\<lambda>m. Inr (py_or fl m (JStr (ascii ''Upstream error''))))"
  by (simp add: upstream_message_def)

lemma upstream_message_present:
  assumes "spec_error_message data = Some m" and "truthy fl m"
  shows "upstream_message fl data = Inr m"
proof -
  from assms(1) obtain err where err: "obj_member data (ascii ''error'') = Some err"
    and m: "obj_member err (ascii ''message'') = Some m"
    by (auto simp: spec_error_message_def split: Option.bind_splits)
  from err obtain kvs where data: "data = JObj kvs" and kvs: "map_of kvs (ascii ''error'') = Some err"
    by (cases data) simp_all
  from m obtain ekvs where e: "err = JObj ekvs" and ekvs: "map_of ekvs (ascii ''message'') = Some m"
    by (cases err) simp_all
  from ekvs have "ekvs \<noteq> []" by auto
  then show ?thesis
    using assms(2) by (simp add: data upstream_message_obj kvs e py_or_def ekvs)
qed

lemma upstream_message_fallback:
  assumes "map_of kvs (ascii ''error'') = None \<or>
           (\<exists>err. map_of kvs (ascii ''error'') = Some err \<and> \<not> truthy fl err) \<or>
           (\<exists>ekvs. map_of kvs (ascii ''error'') = Some (JObj ekvs) \<and>
              (map_of ekvs (ascii ''message'') = None \<or>
               (\<exists>m. map_of ekvs (ascii ''message'') = Some m \<and> \<not> truthy fl m)))"
  shows "upstream_message fl (JObj kvs) = Inr (JStr (ascii ''Upstream error''))"
  using assms unfolding upstream_message_obj
  by (elim disjE exE conjE) (auto simp: py_or_def)

text \<open>Every line of the template, and so every value it embeds, occurs in the prompt.\<close>

lemma sublist_in_prompt:
  assumes "l \<in> set ls" and "sublist x l"
  shows "sublist x (prompt_lines ls)"
  using sublist_prompt_line [OF assms(1)] assms(2) by (rule sublist_order.order_trans [rotated])

lemma build_prompt_contains:
  "sublist pn (build_prompt pn pc fn sc ac)"
  "sublist pc (build_prompt pn pc fn sc ac)"
  "sublist fn (build_prompt pn pc fn sc ac)"
  "sublist sc (build_prompt pn pc fn sc ac)"
  "sublist (case ac of None \<Rightarrow> ascii ''None provided''
            | Some c \<Rightarrow> if c \<noteq> [] then c else ascii ''None provided'')
     (build_prompt pn pc fn sc ac)"
  unfolding build_prompt_def
  by (rule sublist_in_prompt [where l = "ascii ''Pattern Name: '' @ pn"], simp, simp,
      rule sublist_in_prompt [where l = pc], simp, simp,
      rule sublist_in_prompt [where l = "ascii ''File Name: '' @ fn"], simp, simp,
      rule sublist_in_prompt [where l = sc], simp, simp,
      rule sublist_in_prompt [where l = "case ac of None \<Rightarrow> ascii ''None provided''
            | Some c \<Rightarrow> if c \<noteq> [] then c else ascii ''None provided''"], simp, simp)

section \<open>\<open>POST /upload-source\<close>: validation\<close>

text \<open>
  C7. When the trimmed source code and the trimmed file name are both non-empty and the
  trimmed file name does not end with \<open>.go\<close>, the handler raises \<open>HTTPException\<close> with
  status 400 and the detail \<open>File must be a Go source file (.go)\<close>.
\<close>

theorem upload_source_wrong_suffix:
  assumes "strip (SourceCodeUpload.source_code p) \<noteq> []"
    and "strip (SourceCodeUpload.file_name p) \<noteq> []"
    and "\<not> suffix (ascii ''.go'') (strip (SourceCodeUpload.file_name p))"
  shows "upload_source p =
           Inl (HTTPException 400 (JStr (ascii ''File must be a Go source file (.go)'')))"
  using assms by (simp add: upload_source_def endswith_iff_suffix)

text \<open>The request of the specification's scenario, with the file name \<open>a.txt\<close>.\<close>

theorem upload_source_wrong_suffix_witness:
  "strip (ascii ''S'') \<noteq> [] \<and> strip (ascii ''a.txt'') \<noteq> [] \<and>
   \<not> suffix (ascii ''.go'') (strip (ascii ''a.txt'')) \<and>
   upload_source \<lparr>SourceCodeUpload.source_code = ascii ''S'',
                  SourceCodeUpload.file_name = ascii ''a.txt'',
                  SourceCodeUpload.package_name = None\<rparr> =
     (Inl (HTTPException 400 (JStr (ascii ''File must be a Go source file (.go)'')))
        :: unit failure + SourceCodeUploaded)"
proof -
  have h1: "strip (ascii ''S'') \<noteq> []"
    by (simp add: strip_def ascii_def py_isspace_def)
  have s: "strip (ascii ''a.txt'') = ascii ''a.txt''"
    by (simp add: strip_def ascii_def py_isspace_def)
  have h2: "strip (ascii ''a.txt'') \<noteq> []"
    unfolding s by (simp add: ascii_def)
  have h3: "\<not> suffix (ascii ''.go'') (strip (ascii ''a.txt''))"
    unfolding s endswith_iff_suffix [symmetric] by (simp add: endswith_def ascii_def)
  show ?thesis
    using h1 h2 h3 upload_source_wrong_suffix [where
      p = "\<lparr>SourceCodeUpload.source_code = ascii ''S'',
            SourceCodeUpload.file_name = ascii ''a.txt'',
            SourceCodeUpload.package_name = None\<rparr>"]
    by simp
qed

text \<open>
  C10. The checks run in a fixed order. A source code that is empty or all whitespace is
  refused first, whatever the file name is. With a usable source code, a file name that is
  empty or all whitespace is refused with \<open>File name is required\<close>, not with the suffix
  error. Only a file name that survives trimming is tested for the suffix, and the test
  reads the trimmed name: a name ending with \<open>.go\<close> with whitespace before and after it
  is accepted, and the answer carries the trimmed name.
\<close>

theorem upload_source_validation_order:
  fixes p :: SourceCodeUpload and r :: "'f failure + SourceCodeUploaded"
  defines "r \<equiv> upload_source p"
  shows
    "(list_all py_isspace (SourceCodeUpload.source_code p) \<longrightarrow>
        r = Inl (HTTPException 400 (JStr (ascii ''Source code is required'')))) \<and>
     (\<not> list_all py_isspace (SourceCodeUpload.source_code p) \<and>
      list_all py_isspace (SourceCodeUpload.file_name p) \<longrightarrow>
        r = Inl (HTTPException 400 (JStr (ascii ''File name is required'')))) \<and>
     (\<not> list_all py_isspace (SourceCodeUpload.source_code p) \<and>
      \<not> list_all py_isspace (SourceCodeUpload.file_name p) \<and>
      \<not> suffix (ascii ''.go'') (strip (SourceCodeUpload.file_name p)) \<longrightarrow>
        r = Inl (HTTPException 400 (JStr (ascii ''File must be a Go source file (.go)'')))) \<and>
     (\<not> list_all py_isspace (SourceCodeUpload.source_code p) \<and>
      SourceCodeUpload.file_name p = lead @ stem @ ascii ''.go'' @ trail \<and>
      list_all py_isspace lead \<and> list_all py_isspace trail \<and>
      (stem = [] \<or> \<not> py_isspace (hd stem)) \<longrightarrow>
        r = Inr \<lparr>status = ascii ''success'',
                 message = ascii ''Source file '' @ [39] @ stem @ ascii ''.go'' @ [39] @
                           ascii '' uploaded successfully'',
                 SourceCodeUploaded.file_name = stem @ ascii ''.go'',
                 SourceCodeUploaded.package_name = SourceCodeUpload.package_name p\<rparr>)"
proof (intro conjI impI)
  assume "list_all py_isspace (SourceCodeUpload.source_code p)"
  then show "r = Inl (HTTPException 400 (JStr (ascii ''Source code is required'')))"
    by (simp add: r_def upload_source_def blank_iff_strip_Nil)
next
  assume "\<not> list_all py_isspace (SourceCodeUpload.source_code p) \<and>
          list_all py_isspace (SourceCodeUpload.file_name p)"
  then show "r = Inl (HTTPException 400 (JStr (ascii ''File name is required'')))"
    by (simp add: r_def upload_source_def blank_iff_strip_Nil)
next
  assume "\<not> list_all py_isspace (SourceCodeUpload.source_code p) \<and>
          \<not> list_all py_isspace (SourceCodeUpload.file_name p) \<and>
          \<not> suffix (ascii ''.go'') (strip (SourceCodeUpload.file_name p))"
  then show "r = Inl (HTTPException 400 (JStr (ascii ''File must be a Go source file (.go)'')))"
    by (simp add: r_def upload_source_def blank_iff_strip_Nil endswith_iff_suffix)
next
  assume a: "\<not> list_all py_isspace (SourceCodeUpload.source_code p) \<and>
      SourceCodeUpload.file_name p = lead @ stem @ ascii ''.go'' @ trail \<and>
      list_all py_isspace lead \<and> list_all py_isspace trail \<and>
      (stem = [] \<or> \<not> py_isspace (hd stem))"
  let ?t = "stem @ ascii ''.go''"
  have go: "ascii ''.go'' = [46, 103, 111]" by (simp add: ascii_def)
  have "\<not> py_isspace (hd ?t)"
    using a by (cases stem) (simp_all add: go py_isspace_def)
  moreover have "\<not> py_isspace (last ?t)"
    by (simp add: go py_isspace_def)
  moreover have "?t \<noteq> []" by (simp add: go)
  ultimately have "strip (lead @ ?t @ trail) = ?t"
    using a by (intro strip_surrounded) simp_all
  then have fn: "strip (SourceCodeUpload.file_name p) = ?t" using a by simp
  have "endswith ?t (ascii ''.go'')"
    by (simp add: endswith_iff_suffix suffix_def)
  with a fn show "r = Inr \<lparr>status = ascii ''success'',
                 message = ascii ''Source file '' @ [39] @ stem @ ascii ''.go'' @ [39] @
                           ascii '' uploaded successfully'',
                 SourceCodeUploaded.file_name = stem @ ascii ''.go'',
                 SourceCodeUploaded.package_name = SourceCodeUpload.package_name p\<rparr>"
    by (simp add: r_def upload_source_def blank_iff_strip_Nil go)
qed

text \<open>A file name of two spaces, and the file name \<open>a.go\<close> between two spaces.\<close>

theorem upload_source_validation_order_witness:
  "upload_source \<lparr>SourceCodeUpload.source_code = ascii ''package a'',
                  SourceCodeUpload.file_name = [32, 32],
                  SourceCodeUpload.package_name = None\<rparr> =
     (Inl (HTTPException 400 (JStr (ascii ''File name is required'')))
        :: unit failure + SourceCodeUploaded) \<and>
   upload_source \<lparr>SourceCodeUpload.source_code = ascii ''package a'',
                  SourceCodeUpload.file_name = [32] @ ascii ''a'' @ ascii ''.go'' @ [32],
                  SourceCodeUpload.package_name = None\<rparr> =
     (Inr \<lparr>status = ascii ''success'',
           message = ascii ''Source file '' @ [39] @ ascii ''a'' @ ascii ''.go'' @ [39] @
                     ascii '' uploaded successfully'',
           SourceCodeUploaded.file_name = ascii ''a'' @ ascii ''.go'',
           SourceCodeUploaded.package_name = None\<rparr>
        :: unit failure + SourceCodeUploaded)"
proof -
  have src: "\<not> list_all py_isspace (ascii ''package a'')"
    by (simp add: ascii_def py_isspace_def)
  have ws: "list_all py_isspace [32, 32]" "list_all py_isspace [32]"
    by (simp_all add: py_isspace_def)
  have stem: "\<not> py_isspace (hd (ascii ''a''))"
    by (simp add: ascii_def py_isspace_def)
  show ?thesis
    using src ws stem
      upload_source_validation_order [where ?'f = unit and
        p = "\<lparr>SourceCodeUpload.source_code = ascii ''package a'',
              SourceCodeUpload.file_name = [32, 32],
              SourceCodeUpload.package_name = None\<rparr>" and lead = "[]" and trail = "[]" and stem = "[]"]
      upload_source_validation_order [where ?'f = unit and
        p = "\<lparr>SourceCodeUpload.source_code = ascii ''package a'',
              SourceCodeUpload.file_name = [32] @ ascii ''a'' @ ascii ''.go'' @ [32],
              SourceCodeUpload.package_name = None\<rparr>" and lead = "[32]" and trail = "[32]"
          and stem = "ascii ''a''"]
    by simp
qed

section \<open>\<open>POST /generate-ut\<close>: validation\<close>

text \<open>
  C1. When one of the four required fields is empty or consists of whitespace only, the
  handler raises \<open>HTTPException\<close> with status 400, and the list of outbound calls is
  empty: the remote side is never contacted.
\<close>

theorem generate_ut_blank_field_rejected:
  assumes "list_all py_isspace (pattern_content p) \<or>
           list_all py_isspace (UTGenerationRequest.source_code p) \<or>
           list_all py_isspace (UTGenerationRequest.file_name p) \<or>
           list_all py_isspace (pattern_name p)"
  shows "generate_unit_tests fl cfg client_post p =
           (Inl (HTTPException 400 (JStr (ascii
              ''All fields (pattern_content, source_code, file_name, pattern_name) are required''))),
            [])"
  using assms unfolding blank_iff_strip_Nil generate_unit_tests_def
  by (auto simp: Let_def)

text \<open>A request whose file name is a space and a tab.\<close>

theorem generate_ut_blank_field_rejected_witness:
  "list_all py_isspace [32, 9] \<and>
   generate_unit_tests unit_floats
     \<lparr>GEMINI_API_KEY = ascii ''key'', GEMINI_MODEL = ascii ''gemini-2.5-flash''\<rparr>
     (always (Response 200 (Some JNull)))
     \<lparr>pattern_content = ascii ''P'', source_code = ascii ''S'', file_name = [32, 9],
      pattern_name = ascii ''N'', additional_context = None\<rparr> =
     (Inl (HTTPException 400 (JStr (ascii
        ''All fields (pattern_content, source_code, file_name, pattern_name) are required''))),
      [])"
proof -
  have h: "list_all py_isspace [32, 9]" by (simp add: py_isspace_def)
  show ?thesis
    using h generate_ut_blank_field_rejected [where fl = unit_floats and
      p = "\<lparr>pattern_content = ascii ''P'', source_code = ascii ''S'', file_name = [32, 9],
            pattern_name = ascii ''N'', additional_context = None\<rparr>"]
    by simp
qed

section \<open>\<open>POST /generate-ut\<close>: the answer of the remote side\<close>

text \<open>
  C2, as the code has it. When the call the handler made is answered with status 200 and a
  payload whose nested text (the text of the first content part of the first candidate) is
  the string \<open>T\<close>, the response carries \<open>T\<close> trimmed as \<open>unit_tests\<close>, and the trimmed
  pattern name and the trimmed file name of the request as \<open>pattern_used\<close> and
  \<open>file_analyzed\<close>.
\<close>

theorem generate_ut_success:
  assumes "snd (generate_unit_tests fl cfg client_post p) = [call]"
    and "client_post call = Response 200 (Some data)"
    and "spec_nested_text data = Some (JStr T)"
  shows "fst (generate_unit_tests fl cfg client_post p) =
           Inr \<lparr>unit_tests = strip T, pattern_used = strip (pattern_name p),
                file_analyzed = strip (UTGenerationRequest.file_name p)\<rparr>"
  using generate_ut_answered [OF assms(1,2)] extract_located [OF assms(3)] by simp

text \<open>The scenario of the specification.\<close>

theorem generate_ut_success_witness:
  "spec_nested_text scenario_payload = Some (JStr (ascii ''  test code  '')) \<and>
   fst (generate_unit_tests unit_floats scenario_config
          (always (Response 200 (Some scenario_payload))) scenario_request) =
     Inr \<lparr>unit_tests = ascii ''test code'', pattern_used = ascii ''N'',
          file_analyzed = ascii ''a.go''\<rparr>"
proof -
  let ?post = "always (Response 200 (Some scenario_payload))"
  obtain call where
    call: "snd (generate_unit_tests unit_floats scenario_config ?post scenario_request) = [call]"
    using scenario_one_call by blast
  have answer: "?post call = Response 200 (Some scenario_payload)"
    by (simp add: always_def)
  have path: "spec_nested_text scenario_payload = Some (JStr (ascii ''  test code  ''))"
    by (simp add: spec_nested_text_def scenario_payload_def ascii_def)
  have "strip (ascii ''  test code  '') = ascii ''test code''"
    by (simp add: strip_def ascii_def py_isspace_def)
  with generate_ut_success [OF call answer path] path show ?thesis
    by (simp add: scenario_valid)
qed

text \<open>
  C2 as stated says that \<open>pattern_used\<close> echoes the pattern name exactly as supplied. The
  scenario with the pattern name \<open>N\<close> between two spaces: the response says \<open>N\<close>.
\<close>

theorem generate_ut_echo_counterexample:
  "fst (generate_unit_tests unit_floats scenario_config
          (always (Response 200 (Some scenario_payload)))
          (scenario_request\<lparr>pattern_name := ascii '' N ''\<rparr>)) =
     Inr \<lparr>unit_tests = ascii ''test code'', pattern_used = ascii ''N'',
          file_analyzed = ascii ''a.go''\<rparr> \<and>
   pattern_name (scenario_request\<lparr>pattern_name := ascii '' N ''\<rparr>) \<noteq> ascii ''N''"
  by (simp add: generate_unit_tests_def always_def scenario_request_def scenario_payload_def
      extract_unit_tests_def seq_index_def strip_def ascii_def py_isspace_def Let_def)




text \<open>
  C3, as the code has it. The handler takes every status other than 200 as a failure. When
  the body is a JSON object whose error member is an object with a message \<open>m\<close> that
  counts as true (for a string: a non-empty one), it raises \<open>HTTPException\<close> with the
  upstream status and \<open>m\<close> itself. When the body is a JSON object and its error member is
  missing or counts as false, or is an object whose message is missing or counts as false,
  it raises \<open>HTTPException\<close> with the upstream status and the message
  \<open>Upstream error\<close>. Bodies of any other shape are left out.
\<close>

theorem generate_ut_upstream_error:
  assumes "snd (generate_unit_tests fl cfg client_post p) = [call]"
    and "client_post call = Response status_code (Some data)"
    and "status_code \<noteq> 200"
  shows "(spec_error_message data = Some m \<and> truthy fl m \<longrightarrow>
            fst (generate_unit_tests fl cfg client_post p) = Inl (HTTPException status_code m)) \<and>
         (data = JObj kvs \<and>
          (map_of kvs (ascii ''error'') = None \<or>
           (\<exists>err. map_of kvs (ascii ''error'') = Some err \<and> \<not> truthy fl err) \<or>
           (\<exists>ekvs. map_of kvs (ascii ''error'') = Some (JObj ekvs) \<and>
              (map_of ekvs (ascii ''message'') = None \<or>
               (\<exists>m'. map_of ekvs (ascii ''message'') = Some m' \<and> \<not> truthy fl m')))) \<longrightarrow>
            fst (generate_unit_tests fl cfg client_post p) =
              Inl (HTTPException status_code (JStr (ascii ''Upstream error''))))"
proof (intro conjI impI)
  assume "spec_error_message data = Some m \<and> truthy fl m"
  then have "upstream_message fl data = Inr m"
    by (intro upstream_message_present) simp_all
  with assms(3) generate_ut_answered [OF assms(1,2)]
  show "fst (generate_unit_tests fl cfg client_post p) = Inl (HTTPException status_code m)"
    by simp
next
  assume a: "data = JObj kvs \<and>
          (map_of kvs (ascii ''error'') = None \<or>
           (\<exists>err. map_of kvs (ascii ''error'') = Some err \<and> \<not> truthy fl err) \<or>
           (\<exists>ekvs. map_of kvs (ascii ''error'') = Some (JObj ekvs) \<and>
              (map_of ekvs (ascii ''message'') = None \<or>
               (\<exists>m'. map_of ekvs (ascii ''message'') = Some m' \<and> \<not> truthy fl m'))))"
  then have "upstream_message fl (JObj kvs) = Inr (JStr (ascii ''Upstream error''))"
    by (intro upstream_message_fallback) simp
  with a assms(3) generate_ut_answered [OF assms(1,2)]
  show "fst (generate_unit_tests fl cfg client_post p) =
              Inl (HTTPException status_code (JStr (ascii ''Upstream error'')))"
    by simp
qed

text \<open>
  A 429 whose body is \<open>{"error": {"code": 429, "message": "quota exceeded"}}\<close>, and a 500
  whose body is \<open>{}\<close>.
\<close>

theorem generate_ut_upstream_error_witness:
  "fst (generate_unit_tests unit_floats scenario_config
          (always (Response 429 (Some (JObj [(ascii ''error'',
             JObj [(ascii ''code'', JInt 429), (ascii ''message'', JStr (ascii ''quota exceeded''))])]))))
          scenario_request) = Inl (HTTPException 429 (JStr (ascii ''quota exceeded''))) \<and>
   fst (generate_unit_tests unit_floats scenario_config
          (always (Response 500 (Some (JObj [])))) scenario_request) =
     Inl (HTTPException 500 (JStr (ascii ''Upstream error'')))"
proof -
  let ?quota = "JObj [(ascii ''error'',
      JObj [(ascii ''code'', JInt 429), (ascii ''message'', JStr (ascii ''quota exceeded''))])] :: unit json"
  let ?post1 = "always (Response 429 (Some ?quota))"
  let ?post2 = "always (Response 500 (Some (JObj []))) :: unit post_call \<Rightarrow> unit post_outcome"
  obtain c1 where c1: "snd (generate_unit_tests unit_floats scenario_config ?post1 scenario_request) = [c1]"
    using scenario_one_call by blast
  obtain c2 where c2: "snd (generate_unit_tests unit_floats scenario_config ?post2 scenario_request) = [c2]"
    using scenario_one_call by blast
  have a1: "?post1 c1 = Response 429 (Some ?quota)" and a2: "?post2 c2 = Response 500 (Some (JObj []))"
    by (simp_all add: always_def)
  have m: "spec_error_message ?quota = Some (JStr (ascii ''quota exceeded''))"
    by (simp add: spec_error_message_def ascii_def)
  show ?thesis
    using generate_ut_upstream_error [OF c1 a1, where m = "JStr (ascii ''quota exceeded'')"]
      generate_ut_upstream_error [OF c2 a2, where kvs = "[]"] m
    by simp
qed

text \<open>
  C3 as stated promises the fallback message whenever the body holds no error message. A 500
  whose body is the empty JSON array \<open>[]\<close>: \<open>data.get\<close> raises \<open>AttributeError\<close>, which
  nothing catches, and no \<open>HTTPException\<close> with the upstream status is raised.
\<close>

theorem generate_ut_upstream_error_counterexample:
  "fst (generate_unit_tests unit_floats scenario_config
          (always (Response 500 (Some (JArr []))))
          scenario_request) = Inl (Uncaught AttributeError) \<and>
   fst (generate_unit_tests unit_floats scenario_config
          (always (Response 500 (Some (JArr []))))
          scenario_request) \<noteq> Inl (HTTPException 500 (JStr (ascii ''Upstream error'')))"
  by (simp add: generate_unit_tests_def always_def scenario_request_def upstream_message_def
      strip_def ascii_def py_isspace_def Let_def)

text \<open>
  C9. On a status other than 200 with a JSON object as body: when the error member is
  \<open>null\<close>, or is an object whose message is missing, \<open>null\<close> or the empty string, the
  detail of the \<open>HTTPException\<close> is \<open>Upstream error\<close>, with the upstream status.
\<close>

theorem generate_ut_upstream_fallback:
  assumes "snd (generate_unit_tests fl cfg client_post p) = [call]"
    and "client_post call = Response status_code (Some (JObj kvs))"
    and "status_code \<noteq> 200"
    and "map_of kvs (ascii ''error'') = Some JNull \<or>
         (map_of kvs (ascii ''error'') = Some (JObj ekvs) \<and>
          (map_of ekvs (ascii ''message'') = None \<or>
           map_of ekvs (ascii ''message'') = Some JNull \<or>
           map_of ekvs (ascii ''message'') = Some (JStr [])))"
  shows "fst (generate_unit_tests fl cfg client_post p) =
           Inl (HTTPException status_code (JStr (ascii ''Upstream error'')))"
proof -
  have "upstream_message fl (JObj kvs) = Inr (JStr (ascii ''Upstream error''))"
    using assms(4) unfolding upstream_message_obj
    by (elim disjE conjE) (auto simp: py_or_def)
  with assms(3) generate_ut_answered [OF assms(1,2)] show ?thesis by simp
qed

text \<open>Two 500s, with the bodies \<open>{"error": {"message": ""}}\<close> and \<open>{"error": null}\<close>.\<close>

theorem generate_ut_upstream_fallback_witness:
  "fst (generate_unit_tests unit_floats scenario_config
          (always (Response 500 (Some (JObj [(ascii ''error'',
             JObj [(ascii ''message'', JStr [])])]))))
          scenario_request) = Inl (HTTPException 500 (JStr (ascii ''Upstream error''))) \<and>
   fst (generate_unit_tests unit_floats scenario_config
          (always (Response 500 (Some (JObj [(ascii ''error'', JNull)]))))
          scenario_request) = Inl (HTTPException 500 (JStr (ascii ''Upstream error'')))"
proof -
  let ?post1 = "always (Response 500 (Some (JObj [(ascii ''error'',
             JObj [(ascii ''message'', JStr [])])]))) :: unit post_call \<Rightarrow> unit post_outcome"
  let ?post2 = "always (Response 500 (Some (JObj [(ascii ''error'', JNull)])))
    :: unit post_call \<Rightarrow> unit post_outcome"
  obtain c1 where c1: "snd (generate_unit_tests unit_floats scenario_config ?post1 scenario_request) = [c1]"
    using scenario_one_call by blast
  obtain c2 where c2: "snd (generate_unit_tests unit_floats scenario_config ?post2 scenario_request) = [c2]"
    using scenario_one_call by blast
  have a1: "?post1 c1 = Response 500 (Some (JObj [(ascii ''error'', JObj [(ascii ''message'', JStr [])])]))"
    and a2: "?post2 c2 = Response 500 (Some (JObj [(ascii ''error'', JNull)]))"
    by (simp_all add: always_def)
  show ?thesis
    using generate_ut_upstream_fallback [OF c1 a1, where ekvs = "[(ascii ''message'', JStr [])]"]
      generate_ut_upstream_fallback [OF c2 a2, where ekvs = "[]"]
    by simp
qed

section \<open>\<open>POST /generate-ut\<close>: the timeout\<close>



section \<open>\<open>POST /generate-ut\<close>: the prompt\<close>

text \<open>
  C5. For a request whose four required fields are not blank, the body of the one call is
  \<open>request_body\<close> of a prompt that is computed from the request alone (whatever the
  configuration and the remote side are), and the prompt contains the pattern name, the
  pattern content, the file name and the source code, each as trimmed, and the additional
  context as supplied, or the text \<open>None provided\<close> when there is none.
\<close>

theorem generate_ut_prompt_contents:
  fixes p :: UTGenerationRequest and prompt :: py_str
  defines "prompt \<equiv>
    build_prompt (strip (pattern_name p)) (strip (pattern_content p))
      (strip (UTGenerationRequest.file_name p)) (strip (UTGenerationRequest.source_code p))
      (additional_context p)"
  assumes "\<not> list_all py_isspace (pattern_content p)"
    and "\<not> list_all py_isspace (UTGenerationRequest.source_code p)"
    and "\<not> list_all py_isspace (UTGenerationRequest.file_name p)"
    and "\<not> list_all py_isspace (pattern_name p)"
  shows "map json_body (snd (generate_unit_tests fl cfg client_post p)) = [request_body prompt] \<and>
         sublist (strip (pattern_name p)) prompt \<and>
         sublist (strip (pattern_content p)) prompt \<and>
         sublist (strip (UTGenerationRequest.file_name p)) prompt \<and>
         sublist (strip (UTGenerationRequest.source_code p)) prompt \<and>
         (case additional_context p of
            None \<Rightarrow> sublist (ascii ''None provided'') prompt
          | Some c \<Rightarrow> sublist c prompt)"
proof -
  have "snd (generate_unit_tests fl cfg client_post p) =
    [\<lparr>url = GEMINI_URL cfg, json_body = request_body prompt,
      headers = [(ascii ''Content-Type'', ascii ''application/json'')],
      timeout = Timeout 60 (Some 60)\<rparr>]"
    unfolding prompt_def using assms(2-5)
    by (intro generate_ut_call) (simp_all add: blank_iff_strip_Nil)
  then have sent: "map json_body (snd (generate_unit_tests fl cfg client_post p)) = [request_body prompt]"
    by simp
  have ctx: "case additional_context p of
            None \<Rightarrow> sublist (ascii ''None provided'') prompt
          | Some c \<Rightarrow> sublist c prompt"
    using build_prompt_contains(5) [of "additional_context p" "strip (pattern_name p)"
        "strip (pattern_content p)" "strip (UTGenerationRequest.file_name p)"
        "strip (UTGenerationRequest.source_code p)"]
    unfolding prompt_def by (cases "additional_context p") (auto split: if_splits)
  show ?thesis
    using sent ctx unfolding prompt_def by (simp add: build_prompt_contains)
qed

text \<open>The scenario of the specification, which has no additional context.\<close>

theorem generate_ut_prompt_contents_witness:
  "\<not> list_all py_isspace (pattern_content scenario_request) \<and>
   \<not> list_all py_isspace (UTGenerationRequest.source_code scenario_request) \<and>
   \<not> list_all py_isspace (UTGenerationRequest.file_name scenario_request) \<and>
   \<not> list_all py_isspace (pattern_name scenario_request) \<and>
   map json_body (snd (generate_unit_tests unit_floats scenario_config
      (always (Response 200 (Some scenario_payload))) scenario_request)) =
     [request_body (build_prompt (ascii ''N'') (ascii ''P'') (ascii ''a.go'') (ascii ''S'') None)] \<and>
   sublist (ascii ''N'')
     (build_prompt (ascii ''N'') (ascii ''P'') (ascii ''a.go'') (ascii ''S'') None) \<and>
   sublist (ascii ''P'')
     (build_prompt (ascii ''N'') (ascii ''P'') (ascii ''a.go'') (ascii ''S'') None) \<and>
   sublist (ascii ''a.go'')
     (build_prompt (ascii ''N'') (ascii ''P'') (ascii ''a.go'') (ascii ''S'') None) \<and>
   sublist (ascii ''S'')
     (build_prompt (ascii ''N'') (ascii ''P'') (ascii ''a.go'') (ascii ''S'') None) \<and>
   sublist (ascii ''None provided'')
     (build_prompt (ascii ''N'') (ascii ''P'') (ascii ''a.go'') (ascii ''S'') None)"
proof -
  have v: "\<not> list_all py_isspace (pattern_content scenario_request)"
    "\<not> list_all py_isspace (UTGenerationRequest.source_code scenario_request)"
    "\<not> list_all py_isspace (UTGenerationRequest.file_name scenario_request)"
    "\<not> list_all py_isspace (pattern_name scenario_request)"
    by (simp_all add: blank_iff_strip_Nil scenario_valid)
  have ctx: "additional_context scenario_request = None"
    by (simp add: scenario_request_def)
  show ?thesis
    using v generate_ut_prompt_contents [OF v, where fl = unit_floats and cfg = scenario_config
        and client_post = "always (Response 200 (Some scenario_payload))"]
    by (simp add: scenario_valid ctx)
qed




end
